theory Spec2Isabelle
  imports Main
begin

section \<open>Python string primitives used by \<open>slite_api.py\<close>\<close>

text \<open>
  Text is a \<open>string\<close>: a list of characters, each standing for the code point of the
  same number (0 to 255). \<open>isspace\<close> and \<open>isdigit\<close> are Python's \<^verbatim>\<open>str.isspace\<close> and
  \<^verbatim>\<open>str.isdigit\<close> on that range: the white space characters are TAB, LF, VT, FF, CR,
  the four separators 0x1C to 0x1F, the blank, NEL (0x85) and the no-break space (0xA0);
  the digits are \<open>0\<close> to \<open>9\<close> and the superscripts two, three and one.
\<close>

definition isspace :: "char \<Rightarrow> bool" where
  "isspace c \<longleftrightarrow> of_char c \<in> {9, 10, 11, 12, 13, 28, 29, 30, 31, 32, 133, 160 :: nat}"

definition isdigit :: "char \<Rightarrow> bool" where
  "isdigit c \<longleftrightarrow> (48 \<le> (of_char c :: nat) \<and> (of_char c :: nat) \<le> 57)
     \<or> of_char c \<in> {178, 179, 185 :: nat}"

text \<open>\<^verbatim>\<open>s.rstrip()\<close> and \<^verbatim>\<open>s.strip()\<close>: white space removed at the end, at both ends.\<close>

definition rstrip :: "string \<Rightarrow> string" where
  "rstrip s = rev (dropWhile isspace (rev s))"

definition strip :: "string \<Rightarrow> string" where
  "strip s = dropWhile isspace (rstrip s)"

text \<open>\<^verbatim>\<open>s.startswith(p)\<close>.\<close>

definition startswith :: "string \<Rightarrow> string \<Rightarrow> bool" where
  "startswith s p \<longleftrightarrow> take (length p) s = p"

text \<open>
  \<^verbatim>\<open>content.split('\n')\<close>: the pieces between line feeds. The result is never empty:
  the empty string splits into one empty line.
\<close>

fun split_lines :: "string \<Rightarrow> string list" where
  "split_lines [] = [[]]"
| "split_lines (c # cs) =
     (if c = CHR 0x0A then [] # split_lines cs
      else (case split_lines cs of
              [] \<Rightarrow> [[c]]
            | l # ls \<Rightarrow> (c # l) # ls))"

text \<open>Exceptions of the Python runtime that the modelled functions can raise.\<close>

datatype error = IndexError | AttributeError | KeyError

text \<open>\<^verbatim>\<open>s[i]\<close> for \<open>i \<ge> 0\<close>: an index past the end raises.\<close>

definition index :: "string \<Rightarrow> nat \<Rightarrow> error + char" where
  "index s i = (if i < length s then Inr (s ! i) else Inl IndexError)"

section \<open>The ProseMirror tree\<close>

text \<open>
  A node is a dict \<^verbatim>\<open>{"type": "text", "text": t}\<close> or a dict
  \<^verbatim>\<open>{"type": k, "content": [...]}\<close>; a heading carries \<^verbatim>\<open>"attrs": {"level": n}\<close>
  besides, kept in its tag.
\<close>

datatype tag = T_doc | T_paragraph | T_heading nat | T_listItem | T_bulletList

datatype node = Text string | Elem tag "node list"

abbreviation Document :: "node list \<Rightarrow> node" where
  "Document cs \<equiv> Elem T_doc cs"

abbreviation Paragraph :: "node list \<Rightarrow> node" where
  "Paragraph cs \<equiv> Elem T_paragraph cs"

abbreviation Heading :: "nat \<Rightarrow> node list \<Rightarrow> node" where
  "Heading n cs \<equiv> Elem (T_heading n) cs"

abbreviation ListItem :: "node list \<Rightarrow> node" where
  "ListItem cs \<equiv> Elem T_listItem cs"

abbreviation BulletList :: "node list \<Rightarrow> node" where
  "BulletList cs \<equiv> Elem T_bulletList cs"

fun children :: "node \<Rightarrow> node list" where
  "children (Text t) = []"
| "children (Elem k cs) = cs"

text \<open>\<^verbatim>\<open>_convert_text_to_prosemirror_node\<close>.\<close>

definition convert_text_to_prosemirror_node :: "string \<Rightarrow> node" where
  "convert_text_to_prosemirror_node text = Text text"

section \<open>The converter's state\<close>

text \<open>
  The converter builds the blocks of the document as dicts that it goes on changing
  after it has appended them: \<^verbatim>\<open>doc_content\<close>, \<^verbatim>\<open>current_list\<close> and
  \<^verbatim>\<open>current_paragraph\<close> hold references. The model keeps the blocks in a store, a list
  indexed by address, and the three variables hold addresses. A block's own content
  (text leaves, list items) is made of fresh dicts nothing else refers to: it is a value.
  The variable \<^verbatim>\<open>current_section\<close> is never read and is left out.
\<close>

record block =
  kind :: tag
  content :: "node list"

record conv_state =
  heap :: "block list"
  doc_content :: "nat list"
  current_list :: "nat option"
  current_paragraph :: "nat option"

definition node_of :: "block \<Rightarrow> node" where
  "node_of b = Elem (kind b) (content b)"

text \<open>A dict literal: a new block at the next free address.\<close>

definition alloc :: "block \<Rightarrow> conv_state \<Rightarrow> nat \<times> conv_state" where
  "alloc b s = (length (heap s), s\<lparr>heap := heap s @ [b]\<rparr>)"

text \<open>\<^verbatim>\<open>doc_content.append(x)\<close>, with \<open>x\<close> a reference.\<close>

definition doc_append :: "nat \<Rightarrow> conv_state \<Rightarrow> conv_state" where
  "doc_append a s = s\<lparr>doc_content := doc_content s @ [a]\<rparr>"

text \<open>\<^verbatim>\<open>x["content"].append(n)\<close>: the block at address \<open>a\<close> changes in place.\<close>

definition content_append :: "nat \<Rightarrow> node \<Rightarrow> conv_state \<Rightarrow> conv_state" where
  "content_append a n s =
     s\<lparr>heap := (heap s)[a := (heap s ! a)\<lparr>content := content (heap s ! a) @ [n]\<rparr>]\<rparr>"

definition init_state :: conv_state where
  "init_state = \<lparr>heap = [], doc_content = [], current_list = None, current_paragraph = None\<rparr>"

section \<open>\<open>_convert_to_prosemirror\<close>, branch by branch\<close>

text \<open>
  \<^verbatim>\<open>if current_list: doc_content.append(current_list); current_list = None\<close>.
  The test is the truth value of a dict with two keys, or of \<open>None\<close>: it holds exactly
  when the variable is not \<open>None\<close>.
\<close>

definition flush_list :: "conv_state \<Rightarrow> conv_state" where
  "flush_list s =
     (case current_list s of
        None \<Rightarrow> s
      | Some l \<Rightarrow> (doc_append l s)\<lparr>current_list := None\<rparr>)"

text \<open>
  \<^verbatim>\<open>if current_paragraph: doc_content.append(current_paragraph); current_paragraph = None\<close>,
  as the two heading branches have it.
\<close>

definition flush_paragraph :: "conv_state \<Rightarrow> conv_state" where
  "flush_paragraph s =
     (case current_paragraph s of
        None \<Rightarrow> s
      | Some p \<Rightarrow> (doc_append p s)\<lparr>current_paragraph := None\<rparr>)"

text \<open>
  \<^verbatim>\<open>if current_paragraph: doc_content.append(current_paragraph)\<close>, as the branch of the
  empty line and the end of the function have it: the variable keeps its reference.
\<close>

definition append_paragraph :: "conv_state \<Rightarrow> conv_state" where
  "append_paragraph s =
     (case current_paragraph s of
        None \<Rightarrow> s
      | Some p \<Rightarrow> doc_append p s)"

text \<open>Lines 164 to 174: the empty line.\<close>

definition empty_line :: "conv_state \<Rightarrow> conv_state" where
  "empty_line s =
     (let s1 = flush_list s;
          s2 = append_paragraph s1;
          (a, s3) = alloc \<lparr>kind = T_paragraph, content = [Text '''']\<rparr> s2
      in doc_append a s3)"

text \<open>Lines 177 to 191: the bullet point; \<open>line\<close> is the line after \<open>rstrip\<close>.\<close>

definition bullet_line :: "string \<Rightarrow> conv_state \<Rightarrow> conv_state" where
  "bullet_line line s =
     (let text = drop 2 (strip line);
          (l, s1) = (case current_list s of
                       None \<Rightarrow>
                         (let (a, s') = alloc \<lparr>kind = T_bulletList, content = []\<rparr> s
                          in (a, s'\<lparr>current_list := Some a\<rparr>))
                     | Some l \<Rightarrow> (l, s));
          list_item = ListItem [Paragraph [Text text]]
      in content_append l list_item s1)"

text \<open>Lines 195 to 206 and 210 to 221: the two heading branches have the same body.\<close>

definition heading_line :: "string \<Rightarrow> conv_state \<Rightarrow> conv_state" where
  "heading_line line s =
     (let s1 = flush_list s;
          s2 = flush_paragraph s1;
          (a, s3) = alloc \<lparr>kind = T_heading 2, content = [Text line]\<rparr> s2
      in doc_append a s3)"

text \<open>Lines 225 to 237: regular text.\<close>

definition text_line :: "string \<Rightarrow> conv_state \<Rightarrow> conv_state" where
  "text_line line s =
     (let s1 = flush_list s;
          (p, s2) = (case current_paragraph s1 of
                       None \<Rightarrow>
                         (let (a, s') = alloc \<lparr>kind = T_paragraph, content = []\<rparr> s1
                          in (a, s'\<lparr>current_paragraph := Some a\<rparr>))
                     | Some p \<Rightarrow> (p, s1))
      in content_append p (Text line) s2)"

text \<open>The test of line 194.\<close>

definition is_label :: "string \<Rightarrow> bool" where
  "is_label line \<longleftrightarrow>
     startswith line ''Meeting Notes:'' \<or> startswith line ''Date:'' \<or>
     startswith line ''Time:'' \<or> startswith line ''Attendees:'' \<or>
     startswith line ''Facilitator:''"

text \<open>
  The test of line 209, \<^verbatim>\<open>line[0].isdigit() and line[1] == '.'\<close>: the second index is
  evaluated only when the first character is a digit, and raises on a line of length one.
\<close>

definition is_numbered :: "string \<Rightarrow> error + bool" where
  "is_numbered line =
     (case index line 0 of
        Inl e \<Rightarrow> Inl e
      | Inr c0 \<Rightarrow>
          if isdigit c0 then
            (case index line 1 of
               Inl e \<Rightarrow> Inl e
             | Inr c1 \<Rightarrow> Inr (c1 = CHR ''.''))
          else Inr False)"

text \<open>The body of the loop, lines 161 to 237.\<close>

definition process_line :: "conv_state \<Rightarrow> string \<Rightarrow> error + conv_state" where
  "process_line s raw =
     (let line = rstrip raw in
      if line = [] then Inr (empty_line s)
      else if startswith (strip line) ''- '' then Inr (bullet_line line s)
      else if is_label line then Inr (heading_line line s)
      else (case is_numbered line of
              Inl e \<Rightarrow> Inl e
            | Inr True \<Rightarrow> Inr (heading_line line s)
            | Inr False \<Rightarrow> Inr (text_line line s)))"

text \<open>The loop over the lines: an exception ends it.\<close>

fun run_lines :: "conv_state \<Rightarrow> string list \<Rightarrow> error + conv_state" where
  "run_lines s [] = Inr s"
| "run_lines s (l # ls) =
     (case process_line s l of
        Inl e \<Rightarrow> Inl e
      | Inr s' \<Rightarrow> run_lines s' ls)"

text \<open>Lines 240 to 243: what is still open is appended, the list first.\<close>

definition finish :: "conv_state \<Rightarrow> conv_state" where
  "finish s =
     (let s1 = (case current_list s of None \<Rightarrow> s | Some l \<Rightarrow> doc_append l s)
      in append_paragraph s1)"

text \<open>
  The returned dict: the references of \<^verbatim>\<open>doc_content\<close> read in the final store, so a
  block appended twice appears twice, with the content it has at the end.
\<close>

definition result_doc :: "conv_state \<Rightarrow> node" where
  "result_doc s = Document (map (\<lambda>a. node_of (heap s ! a)) (doc_content s))"

definition convert_to_prosemirror :: "string \<Rightarrow> error + node" where
  "convert_to_prosemirror content0 =
     (case run_lines init_state (split_lines content0) of
        Inl e \<Rightarrow> Inl e
      | Inr s \<Rightarrow> Inr (result_doc (finish s)))"

section \<open>Invariants of the converter's state\<close>

text \<open>Every reference held by the state is an address of the store.\<close>

definition refs_ok :: "conv_state \<Rightarrow> bool" where
  "refs_ok s \<longleftrightarrow>
     list_all (\<lambda>a. a < length (heap s)) (doc_content s) \<and>
     (case current_list s of None \<Rightarrow> True | Some l \<Rightarrow> l < length (heap s)) \<and>
     (case current_paragraph s of None \<Rightarrow> True | Some p \<Rightarrow> p < length (heap s))"

text \<open>Between two lines, no bullet list of the store is empty.\<close>

definition lists_nonempty :: "conv_state \<Rightarrow> bool" where
  "lists_nonempty s \<longleftrightarrow>
     list_all (\<lambda>b. kind b \<noteq> T_bulletList \<or> content b \<noteq> []) (heap s)"

text \<open>The lines on which the test of line 209 raises: one digit and nothing else.\<close>

definition lone_digit :: "string \<Rightarrow> bool" where
  "lone_digit raw \<longleftrightarrow> length (rstrip raw) = 1 \<and> isdigit (rstrip raw ! 0)"

section \<open>\<open>SliteEventHandler\<close>\<close>

text \<open>
  An exception object, as far as \<^verbatim>\<open>except Exception as e: logger.error(f"...{str(e)}")\<close>
  can tell: whether it is an instance of \<^verbatim>\<open>Exception\<close> (which the clause catches) or of
  another subclass of \<^verbatim>\<open>BaseException\<close> such as \<^verbatim>\<open>SystemExit\<close> or
  \<^verbatim>\<open>KeyboardInterrupt\<close> (which it lets through), and what \<^verbatim>\<open>str(e)\<close> does: it returns
  a string, or the object's \<^verbatim>\<open>__str__\<close> raises in its turn.
\<close>

datatype py_exc = PyExc (is_Exception: bool) (str_outcome: str_outcome)
  and str_outcome = StrReturns string | StrRaises py_exc

datatype outcome = Returns | Raises py_exc

text \<open>
  The four lists hold references to callables, in registration order.
\<close>

record slite_event_handler =
  folder_created_handlers :: "nat list"
  folder_updated_handlers :: "nat list"
  document_created_handlers :: "nat list"
  document_updated_handlers :: "nat list"

text \<open>
  What a handler can act on: the world outside the event handler (\<open>'w\<close>), the event
  handler object itself, and the records of the module's logger. A callable is given
  the payload and this state, and returns or raises.
\<close>

record 'w py_state =
  world :: 'w
  events :: slite_event_handler
  logged :: "string list"

type_synonym ('p, 'w) callable = "'p \<Rightarrow> 'w py_state \<Rightarrow> outcome \<times> 'w py_state"

definition new_event_handler :: slite_event_handler where
  "new_event_handler =
     \<lparr>folder_created_handlers = [], folder_updated_handlers = [],
      document_created_handlers = [], document_updated_handlers = []\<rparr>"

definition on_folder_created :: "nat \<Rightarrow> slite_event_handler \<Rightarrow> slite_event_handler" where
  "on_folder_created h b = b\<lparr>folder_created_handlers := folder_created_handlers b @ [h]\<rparr>"

definition on_folder_updated :: "nat \<Rightarrow> slite_event_handler \<Rightarrow> slite_event_handler" where
  "on_folder_updated h b = b\<lparr>folder_updated_handlers := folder_updated_handlers b @ [h]\<rparr>"

definition on_document_created :: "nat \<Rightarrow> slite_event_handler \<Rightarrow> slite_event_handler" where
  "on_document_created h b =
     b\<lparr>document_created_handlers := document_created_handlers b @ [h]\<rparr>"

definition on_document_updated :: "nat \<Rightarrow> slite_event_handler \<Rightarrow> slite_event_handler" where
  "on_document_updated h b =
     b\<lparr>document_updated_handlers := document_updated_handlers b @ [h]\<rparr>"

text \<open>
  The loop the four trigger methods share,
  \<^verbatim>\<open>for handler in self.X_handlers: try: handler(data) except Exception as e: logger.error(label + str(e))\<close>,
  from position \<open>i\<close> of the list on. \<open>fs\<close> gives the callable behind each reference.
  \<^item> The list is read as it is at each step, so what a handler appends to it during the
    loop is called too (a handler that binds the attribute to another list object is
    outside this model). The loop need not end: not returning is the value \<open>None\<close>.
  \<^item> An exception that is no instance of \<^verbatim>\<open>Exception\<close> is not caught and leaves the method.
  \<^item> \<^verbatim>\<open>str(e)\<close> is evaluated in the body of the \<^verbatim>\<open>except\<close> clause, outside any
    \<^verbatim>\<open>try\<close>: what it raises leaves the method, and nothing is logged.
  The first component of the result is the exception that leaves the method, if any.
\<close>

partial_function (option) call_handlers ::
  "(nat \<Rightarrow> ('p, 'w) callable) \<Rightarrow> (slite_event_handler \<Rightarrow> nat list) \<Rightarrow> string \<Rightarrow> 'p \<Rightarrow> nat
     \<Rightarrow> 'w py_state \<Rightarrow> (py_exc option \<times> 'w py_state) option" where
  "call_handlers fs handlers label p i s =
     (if i < length (handlers (events s)) then
        (case fs (handlers (events s) ! i) p s of
           (Returns, s') \<Rightarrow> call_handlers fs handlers label p (Suc i) s'
         | (Raises e, s') \<Rightarrow>
             if is_Exception e then
               (case str_outcome e of
                  StrReturns m \<Rightarrow>
                    call_handlers fs handlers label p (Suc i)
                      (s'\<lparr>logged := logged s' @ [label @ m]\<rparr>)
                | StrRaises e' \<Rightarrow> Some (Some e', s'))
             else Some (Some e, s'))
      else Some (None, s))"

definition trigger_folder_created ::
  "(nat \<Rightarrow> ('p, 'w) callable) \<Rightarrow> 'p \<Rightarrow> 'w py_state \<Rightarrow> (py_exc option \<times> 'w py_state) option" where
  "trigger_folder_created fs folder_data s =
     call_handlers fs folder_created_handlers ''Error in folder created handler: ''
       folder_data 0 s"

definition trigger_folder_updated ::
  "(nat \<Rightarrow> ('p, 'w) callable) \<Rightarrow> 'p \<Rightarrow> 'w py_state \<Rightarrow> (py_exc option \<times> 'w py_state) option" where
  "trigger_folder_updated fs folder_data s =
     call_handlers fs folder_updated_handlers ''Error in folder updated handler: ''
       folder_data 0 s"

definition trigger_document_created ::
  "(nat \<Rightarrow> ('p, 'w) callable) \<Rightarrow> 'p \<Rightarrow> 'w py_state \<Rightarrow> (py_exc option \<times> 'w py_state) option" where
  "trigger_document_created fs document_data s =
     call_handlers fs document_created_handlers ''Error in document created handler: ''
       document_data 0 s"

definition trigger_document_updated ::
  "(nat \<Rightarrow> ('p, 'w) callable) \<Rightarrow> 'p \<Rightarrow> 'w py_state \<Rightarrow> (py_exc option \<times> 'w py_state) option" where
  "trigger_document_updated fs document_data s =
     call_handlers fs document_updated_handlers ''Error in document updated handler: ''
       document_data 0 s"

text \<open>
  Callables that, on this payload, leave the event handler object as it is and either
  return or raise an instance of \<^verbatim>\<open>Exception\<close> whose \<^verbatim>\<open>str\<close> returns.
\<close>

definition quiet :: "(nat \<Rightarrow> ('p, 'w) callable) \<Rightarrow> 'p \<Rightarrow> bool" where
  "quiet fs p \<longleftrightarrow>
     (\<forall>h s. events (snd (fs h p s)) = events s \<and>
        (fst (fs h p s) = Returns \<or>
         (\<exists>m. fst (fs h p s) = Raises (PyExc True (StrReturns m)))))"

text \<open>
  Five callables to run the triggers on. The world they act on is the list of the calls
  made: each adds its name and the payload it was given. The first raises an
  \<^verbatim>\<open>Exception\<close>, the second returns, the third raises an \<^verbatim>\<open>Exception\<close> whose
  \<^verbatim>\<open>__str__\<close> raises, the fourth raises \<^verbatim>\<open>SystemExit\<close>, the fifth registers the second
  for the creation of folders.
\<close>

definition record_call :: "string \<Rightarrow> string \<Rightarrow> string list py_state \<Rightarrow> string list py_state" where
  "record_call name p s = s\<lparr>world := world s @ [name @ p]\<rparr>"

definition failing_handler :: "string \<Rightarrow> (string, string list) callable" where
  "failing_handler name p s = (Raises (PyExc True (StrReturns ''boom'')), record_call name p s)"

definition recording_handler :: "string \<Rightarrow> (string, string list) callable" where
  "recording_handler name p s = (Returns, record_call name p s)"

definition unprintable_handler :: "string \<Rightarrow> (string, string list) callable" where
  "unprintable_handler name p s =
     (Raises (PyExc True (StrRaises (PyExc True (StrReturns ''no text'')))),
      record_call name p s)"

definition exiting_handler :: "string \<Rightarrow> (string, string list) callable" where
  "exiting_handler name p s = (Raises (PyExc False (StrReturns ''exit'')), record_call name p s)"

definition registering_handler :: "string \<Rightarrow> nat \<Rightarrow> (string, string list) callable" where
  "registering_handler name h p s =
     (Returns, (record_call name p s)\<lparr>events := on_folder_created h (events s)\<rparr>)"

definition example_callables :: "nat \<Rightarrow> (string, string list) callable" where
  "example_callables n =
     (if n = 1 then failing_handler ''H1 ''
      else if n = 2 then recording_handler ''H2 ''
      else if n = 3 then unprintable_handler ''H3 ''
      else if n = 4 then exiting_handler ''H4 ''
      else registering_handler ''H5 '' 2)"

section \<open>\<open>SliteAPI.add_metadata\<close>\<close>

text \<open>
  The method changes dicts in place, and the same dict may be the value of several keys.
  So dicts live in a store, a list indexed by address, and a value is a string, a truth
  value, \<open>None\<close> or a reference to a dict of the store. \<^verbatim>\<open>data\<close> is such a reference
  too, \<open>d\<close>; the method returns it, so the result of the model is the store after the
  call.
\<close>

datatype pyval = PStr string | PBool bool | PNone | PRef nat

type_synonym pydict = "string \<Rightarrow> pyval option"

text \<open>
  The dict given to \<^verbatim>\<open>update\<close>; \<open>now\<close> is the reading of the clock,
  \<^verbatim>\<open>datetime.now().strftime("%Y-%m-%d %H:%M:%S")\<close>.
\<close>

definition stamp :: "string \<Rightarrow> pydict" where
  "stamp now =
     [''last_updated'' \<mapsto> PStr now, ''updated_by'' \<mapsto> PStr ''Slite Integration Agent'']"

text \<open>
  Lines 123 to 130. A missing key gets a new, empty dict; then
  \<^verbatim>\<open>data["metadata"].update(...)\<close> looks the key up and changes the dict found in place.
  On a string, a truth value or \<open>None\<close> the attribute \<^verbatim>\<open>update\<close> is missing.
\<close>

definition add_metadata :: "string \<Rightarrow> nat \<Rightarrow> pydict list \<Rightarrow> error + pydict list" where
  "add_metadata now d st =
     (let st1 = (if (st ! d) ''metadata'' = None
                 then (st @ [Map.empty])[d := (st ! d)(''metadata'' \<mapsto> PRef (length st))]
                 else st)
      in case (st1 ! d) ''metadata'' of
           None \<Rightarrow> Inl KeyError
         | Some (PRef a) \<Rightarrow> Inr (st1[a := (st1 ! a) ++ stamp now])
         | Some _ \<Rightarrow> Inl AttributeError)"

text \<open>
  A store to run the method on: \<^verbatim>\<open>data\<close> at address 0 with a title, and one dict, at
  address 1, that is the value of both \<^verbatim>\<open>metadata\<close> and \<^verbatim>\<open>copy\<close>.
\<close>

definition example_store :: "pydict list" where
  "example_store =
     [[''title'' \<mapsto> PStr ''T'', ''metadata'' \<mapsto> PRef 1, ''copy'' \<mapsto> PRef 1],
      [''owner'' \<mapsto> PStr ''me'']]"

section \<open>The converter on concrete texts\<close>

text \<open>
  C1. The claim: the builder returns a Document for every input, and a line that is one
  decimal digit is regular text. The code: on the text \<open>5\<close> the test of line 209 reads
  \<^verbatim>\<open>line[1]\<close> of a line of length one, and the call ends with \<open>IndexError\<close>.
\<close>

theorem convert_lone_digit_raises:
  "convert_to_prosemirror ''5'' = Inl IndexError"
  by code_simp

text \<open>
  C2. The claim: an empty line appends and clears the open paragraph, so the text
  \<open>a\<close>, empty line, \<open>b\<close> gives the paragraphs \<open>a\<close>, empty, \<open>b\<close>. The code: the empty
  line appends the open paragraph and keeps it open; \<open>b\<close> is added to that same block,
  which the end of the function appends a second time.
\<close>

theorem convert_blank_line_keeps_paragraph_open:
  "convert_to_prosemirror ''a\<newline>\<newline>b'' =
     Inr (Document [Paragraph [Text ''a'', Text ''b''],
                    Paragraph [Text ''''],
                    Paragraph [Text ''a'', Text ''b'']])"
  by code_simp

text \<open>
  C3. The claim: a bullet line appends the open paragraph before the item is added, so
  a paragraph followed by bullets comes before the list. The code: the bullet branch
  leaves the open paragraph alone, and the end of the function appends the list first.
\<close>

theorem convert_bullet_after_text_reorders:
  "convert_to_prosemirror ''x\<newline>- a\<newline>- b'' =
     Inr (Document [BulletList [ListItem [Paragraph [Text ''a'']],
                                ListItem [Paragraph [Text ''b'']]],
                    Paragraph [Text ''x'']])"
  by code_simp

text \<open>
  C4. The claim: the empty string gives a Document with no child; the comment of line
  163 says of the branch that empty lines are skipped. The code: the empty string
  splits into one empty line, and the branch appends a paragraph with one empty text
  leaf for it, so the Document has one child.
\<close>

theorem convert_empty_string:
  "convert_to_prosemirror '''' = Inr (Document [Paragraph [Text '''']])"
  by code_simp

text \<open>
  C8. The text of the two bullet lines \<open>- a\<close> and \<open>- b\<close> gives a Document with exactly
  one child, a bullet list of two items with the texts \<open>a\<close> and \<open>b\<close> in this order, each
  item holding one paragraph with one text leaf.
\<close>

theorem convert_two_bullets:
  "convert_to_prosemirror ''- a\<newline>- b'' =
     Inr (Document [BulletList [ListItem [Paragraph [Text ''a'']],
                                ListItem [Paragraph [Text ''b'']]]])"
  by code_simp

text \<open>The two branches behind C2 and C3 leave the open paragraph as it is.\<close>

lemma empty_line_keeps_paragraph:
  "current_paragraph (empty_line s) = current_paragraph s"
  by (simp add: empty_line_def flush_list_def append_paragraph_def alloc_def doc_append_def
        Let_def split: option.splits)

lemma bullet_line_keeps_paragraph:
  "current_paragraph (bullet_line line s) = current_paragraph s \<and>
   doc_content (bullet_line line s) = doc_content s"
  by (simp add: bullet_line_def alloc_def content_append_def Let_def split: option.splits)

section \<open>Facts about the string primitives\<close>

lemma rstrip_Cons_nonspace: "\<not> isspace c \<Longrightarrow> rstrip (c # cs) = c # rstrip cs"
  by (simp add: rstrip_def dropWhile_append)

lemma rstrip_idem: "rstrip (rstrip s) = rstrip s"
proof -
  have "dropWhile isspace (dropWhile isspace xs) = dropWhile isspace xs" for xs
    by (metis dropWhile_idem)
  then show ?thesis by (simp add: rstrip_def)
qed

lemma strip_rstrip: "strip (rstrip s) = strip s"
  by (simp add: strip_def rstrip_idem)

lemma startswith_Cons: "startswith (c # cs) (d # ds) \<longleftrightarrow> c = d \<and> startswith cs ds"
  by (auto simp: startswith_def)

lemma startswith_Nil: "startswith [] (d # ds) \<longleftrightarrow> False"
  by (simp add: startswith_def)

lemma startswith_length: "startswith s p \<Longrightarrow> length p \<le> length s"
  by (metis startswith_def length_take min.cobounded1 min.commute)

text \<open>
  \<open>rstrip\<close> removes from the end only, so a line starts with a label exactly when the
  line without its white space at the end does.
\<close>

lemma rstrip_append_nonspace:
  "xs \<noteq> [] \<Longrightarrow> \<not> isspace (last xs) \<Longrightarrow> rstrip (xs @ ys) = xs @ rstrip ys"
  by (cases xs rule: rev_cases) (auto simp: rstrip_def dropWhile_append)

lemma rstrip_prefix: "rstrip s @ rev (takeWhile isspace (rev s)) = s"
  unfolding rstrip_def rev_append [symmetric] by simp

lemma startswith_rstrip:
  assumes "p \<noteq> []" and "\<not> isspace (last p)"
  shows "startswith (rstrip s) p \<longleftrightarrow> startswith s p"
proof
  assume sw: "startswith (rstrip s) p"
  then have "length p \<le> length (rstrip s)" by (rule startswith_length)
  then have "take (length p) (rstrip s @ rev (takeWhile isspace (rev s))) =
      take (length p) (rstrip s)"
    by simp
  with sw show "startswith s p" by (simp add: startswith_def rstrip_prefix)
next
  assume "startswith s p"
  then have "s = p @ drop (length p) s"
    by (metis append_take_drop_id startswith_def)
  then have "rstrip s = p @ rstrip (drop (length p) s)"
    using rstrip_append_nonspace [OF assms, of "drop (length p) s"] by simp
  then show "startswith (rstrip s) p" by (simp add: startswith_def)
qed

lemma is_label_rstrip: "is_label (rstrip raw) \<longleftrightarrow> is_label raw"
  by (simp add: is_label_def startswith_rstrip isspace_def)

text \<open>A label line starts with a letter, so it is neither empty nor a bullet line.\<close>

lemma is_label_first:
  "is_label line \<Longrightarrow> \<exists>c cs. line = c # cs \<and> c \<in> {CHR ''M'', CHR ''D'', CHR ''T'', CHR ''A'', CHR ''F''}"
  by (cases line) (auto simp: is_label_def startswith_Cons startswith_Nil)

lemma is_label_not_bullet:
  assumes "is_label (rstrip raw)"
  shows "\<not> startswith (strip (rstrip raw)) ''- ''"
proof -
  from is_label_first [OF assms] obtain c cs where
    l: "rstrip raw = c # cs" and c: "c \<in> {CHR ''M'', CHR ''D'', CHR ''T'', CHR ''A'', CHR ''F''}"
    by blast
  from c have ns: "\<not> isspace c" by (auto simp: isspace_def)
  have "rstrip (c # cs) = c # rstrip cs" using ns by (rule rstrip_Cons_nonspace)
  then have "strip (rstrip raw) = c # rstrip cs"
    using ns by (simp add: strip_def l)
  then show ?thesis using c by (auto simp: startswith_Cons)
qed


lemma is_label_nonempty: "is_label line \<Longrightarrow> line \<noteq> []"
  using is_label_first by blast

section \<open>The lines on which the converter raises\<close>

text \<open>
  The test of line 209 in closed form, and with it the exact set of lines on which
  the body of the loop raises, whatever the state: the lines of one digit.
\<close>

lemma is_numbered_eq:
  "line \<noteq> [] \<Longrightarrow> is_numbered line =
     (if isdigit (line ! 0) then
        (if length line = 1 then Inl IndexError else Inr (line ! 1 = CHR ''.''))
      else Inr False)"
  by (cases line) (auto simp: is_numbered_def index_def)

lemma lone_digit_not_bullet:
  assumes "length (rstrip raw) = 1"
  shows "\<not> startswith (strip (rstrip raw)) ''- ''"
proof
  assume "startswith (strip (rstrip raw)) ''- ''"
  then have "2 \<le> length (strip (rstrip raw))"
    using startswith_length by fastforce
  moreover have "length (strip (rstrip raw)) \<le> length (rstrip raw)"
    by (simp add: strip_def rstrip_idem length_dropWhile_le)
  ultimately show False using assms by simp
qed

lemma lone_digit_not_label:
  assumes "length line = 1"
  shows "\<not> is_label line"
proof
  assume "is_label line"
  then have "5 \<le> length line"
    by (auto simp: is_label_def dest!: startswith_length)
  with assms show False by simp
qed

lemma process_line_Inl:
  "process_line s raw = Inl e \<longleftrightarrow> lone_digit raw \<and> e = IndexError"
proof (cases "rstrip raw = []")
  case True
  then show ?thesis by (simp add: process_line_def lone_digit_def)
next
  case ne: False
  show ?thesis
  proof (cases "length (rstrip raw) = 1")
    case True
    with lone_digit_not_bullet [OF True] lone_digit_not_label [OF True] ne show ?thesis
      by (auto simp: process_line_def lone_digit_def Let_def is_numbered_eq)
  next
    case False
    with ne show ?thesis
      by (auto simp: process_line_def lone_digit_def Let_def is_numbered_eq split: bool.splits)
  qed
qed

lemma run_lines_Inl:
  "run_lines s ls = Inl e \<longleftrightarrow> (\<exists>l \<in> set ls. lone_digit l) \<and> e = IndexError"
proof (induction ls arbitrary: s)
  case Nil
  then show ?case by simp
next
  case (Cons l ls)
  show ?case
  proof (cases "process_line s l")
    case (Inl e')
    then show ?thesis using process_line_Inl [of s l e'] by auto
  next
    case (Inr s')
    then have "\<not> lone_digit l" using process_line_Inl [of s l IndexError] by auto
    with Inr Cons.IH [of s'] show ?thesis by simp
  qed
qed

text \<open>
  The converter returns a Document exactly on the texts with no line of one digit.
\<close>

lemma convert_raises_iff:
  "convert_to_prosemirror t = Inl e \<longleftrightarrow> (\<exists>l \<in> set (split_lines t). lone_digit l) \<and> e = IndexError"
  using run_lines_Inl [of init_state "split_lines t" e]
  by (auto simp: convert_to_prosemirror_def split: sum.splits)


section \<open>The invariants are kept by every branch\<close>

lemma list_all_update:
  "list_all P xs \<Longrightarrow> P x \<Longrightarrow> list_all P (xs[i := x])"
  using set_update_subset_insert [of xs i x] by (auto simp: list_all_iff)

lemma list_all_less_Suc:
  "list_all (\<lambda>a. a < n) xs \<Longrightarrow> list_all (\<lambda>a. a < Suc n) xs"
  by (auto simp: list_all_iff)

lemma refs_ok_flush_list: "refs_ok s \<Longrightarrow> refs_ok (flush_list s)"
  by (auto simp: refs_ok_def flush_list_def doc_append_def split: option.splits)

lemma refs_ok_flush_paragraph: "refs_ok s \<Longrightarrow> refs_ok (flush_paragraph s)"
  by (auto simp: refs_ok_def flush_paragraph_def doc_append_def split: option.splits)

lemma refs_ok_append_paragraph: "refs_ok s \<Longrightarrow> refs_ok (append_paragraph s)"
  by (auto simp: refs_ok_def append_paragraph_def doc_append_def split: option.splits)

lemma refs_ok_alloc_doc_append:
  "refs_ok s \<Longrightarrow> refs_ok (doc_append (fst (alloc b s)) (snd (alloc b s)))"
  by (auto simp: refs_ok_def alloc_def doc_append_def list_all_less_Suc split: option.splits)

lemma refs_ok_empty_line: "refs_ok s \<Longrightarrow> refs_ok (empty_line s)"
  using refs_ok_alloc_doc_append [OF refs_ok_append_paragraph [OF refs_ok_flush_list]]
  by (simp add: empty_line_def Let_def split_beta)

lemma refs_ok_heading_line: "refs_ok s \<Longrightarrow> refs_ok (heading_line line s)"
  using refs_ok_alloc_doc_append [OF refs_ok_flush_paragraph [OF refs_ok_flush_list]]
  by (simp add: heading_line_def Let_def split_beta)

lemma refs_ok_bullet_line: "refs_ok s \<Longrightarrow> refs_ok (bullet_line line s)"
  by (auto simp: refs_ok_def bullet_line_def alloc_def content_append_def Let_def
        list_all_less_Suc split: option.splits)

lemma refs_ok_text_open:
  "refs_ok s \<Longrightarrow> refs_ok (case current_paragraph s of
       None \<Rightarrow> content_append (length (heap s)) n
                 (s\<lparr>heap := heap s @ [b], current_paragraph := Some (length (heap s))\<rparr>)
     | Some p \<Rightarrow> content_append p n s)"
  by (auto simp: refs_ok_def content_append_def list_all_less_Suc split: option.splits)

lemma refs_ok_text_line: "refs_ok s \<Longrightarrow> refs_ok (text_line line s)"
  using refs_ok_text_open [OF refs_ok_flush_list, of s]
  by (auto simp: text_line_def alloc_def Let_def split: option.splits)

lemma heap_flush_list: "heap (flush_list s) = heap s"
  by (simp add: flush_list_def doc_append_def split: option.splits)

lemma heap_flush_paragraph: "heap (flush_paragraph s) = heap s"
  by (simp add: flush_paragraph_def doc_append_def split: option.splits)

lemma heap_append_paragraph: "heap (append_paragraph s) = heap s"
  by (simp add: append_paragraph_def doc_append_def split: option.splits)

lemma lists_nonempty_empty_line: "lists_nonempty s \<Longrightarrow> lists_nonempty (empty_line s)"
  by (simp add: lists_nonempty_def empty_line_def Let_def alloc_def doc_append_def
        heap_flush_list heap_append_paragraph)

lemma lists_nonempty_heading_line: "lists_nonempty s \<Longrightarrow> lists_nonempty (heading_line line s)"
  by (simp add: lists_nonempty_def heading_line_def Let_def alloc_def doc_append_def
        heap_flush_list heap_flush_paragraph)

lemma lists_nonempty_bullet_line: "lists_nonempty s \<Longrightarrow> lists_nonempty (bullet_line line s)"
  by (auto simp: lists_nonempty_def bullet_line_def alloc_def content_append_def Let_def
        list_all_update split: option.splits)

lemma lists_nonempty_text_line: "lists_nonempty s \<Longrightarrow> lists_nonempty (text_line line s)"
  by (auto simp: lists_nonempty_def text_line_def alloc_def content_append_def Let_def
        heap_flush_list list_all_update split: option.splits)

lemma process_line_cases:
  "process_line s raw = Inr s' \<Longrightarrow>
     s' = empty_line s \<or> s' = bullet_line (rstrip raw) s \<or>
     s' = heading_line (rstrip raw) s \<or> s' = text_line (rstrip raw) s"
  by (auto simp: process_line_def Let_def split: if_splits sum.splits bool.splits)

lemma process_line_inv:
  assumes "process_line s raw = Inr s'" and "refs_ok s \<and> lists_nonempty s"
  shows "refs_ok s' \<and> lists_nonempty s'"
  using process_line_cases [OF assms(1)] assms(2)
  by (auto simp: refs_ok_empty_line refs_ok_bullet_line refs_ok_heading_line refs_ok_text_line
        lists_nonempty_empty_line lists_nonempty_bullet_line lists_nonempty_heading_line
        lists_nonempty_text_line)

lemma run_lines_inv:
  "run_lines s ls = Inr s' \<Longrightarrow> refs_ok s \<and> lists_nonempty s \<Longrightarrow> refs_ok s' \<and> lists_nonempty s'"
proof (induction ls arbitrary: s)
  case Nil
  then show ?case by simp
next
  case (Cons l ls)
  from Cons.prems(1) obtain s1 where
    step: "process_line s l = Inr s1" and rest: "run_lines s1 ls = Inr s'"
    by (auto split: sum.splits)
  from process_line_inv [OF step Cons.prems(2)] have "refs_ok s1 \<and> lists_nonempty s1" .
  with rest show ?case by (rule Cons.IH)
qed

lemma init_inv: "refs_ok init_state \<and> lists_nonempty init_state"
  by (simp add: refs_ok_def lists_nonempty_def init_state_def)

lemma finish_inv:
  "refs_ok s \<and> lists_nonempty s \<Longrightarrow> refs_ok (finish s) \<and> lists_nonempty (finish s)"
  by (auto simp: refs_ok_def lists_nonempty_def finish_def append_paragraph_def doc_append_def
        split: option.splits)

lemma result_doc_lists:
  assumes "refs_ok s" and "lists_nonempty s"
    and "n \<in> set (children (result_doc s))" and "n = BulletList items"
  shows "items \<noteq> []"
proof -
  from assms(3) obtain a where a: "a \<in> set (doc_content s)" and n: "n = node_of (heap s ! a)"
    by (auto simp: result_doc_def)
  from a assms(1) have "a < length (heap s)"
    by (auto simp: refs_ok_def list_all_iff)
  then have "heap s ! a \<in> set (heap s)" by simp
  with assms(2) have "kind (heap s ! a) \<noteq> T_bulletList \<or> content (heap s ! a) \<noteq> []"
    by (auto simp: lists_nonempty_def list_all_iff)
  with n assms(4) show ?thesis by (auto simp: node_of_def)
qed

text \<open>
  C6. Every bullet list among the children of a Document the converter returns has at
  least one item: a list enters the store together with its first item, and items are
  only ever added. This holds for every text on which the converter returns.
\<close>

theorem bullet_lists_nonempty:
  assumes "convert_to_prosemirror t = Inr d"
  shows "\<forall>n \<in> set (children d). \<forall>items. n = BulletList items \<longrightarrow> items \<noteq> []"
proof -
  from assms obtain s where run: "run_lines init_state (split_lines t) = Inr s"
    and d: "d = result_doc (finish s)"
    by (auto simp: convert_to_prosemirror_def split: sum.splits)
  from run_lines_inv [OF run init_inv] have "refs_ok (finish s) \<and> lists_nonempty (finish s)"
    by (rule finish_inv)
  then show ?thesis using result_doc_lists [of "finish s"] d by blast
qed


theorem bullet_lists_nonempty_witness:
  "convert_to_prosemirror ''- a\<newline>x\<newline>- b'' =
     Inr (Document [BulletList [ListItem [Paragraph [Text ''a'']]],
                    BulletList [ListItem [Paragraph [Text ''b'']]],
                    Paragraph [Text ''x'']]) \<and>
   [ListItem [Paragraph [Text ''a'']]] \<noteq> [] \<and>
   [ListItem [Paragraph [Text ''b'']]] \<noteq> []"
proof -
  have c: "convert_to_prosemirror ''- a\<newline>x\<newline>- b'' =
     Inr (Document [BulletList [ListItem [Paragraph [Text ''a'']]],
                    BulletList [ListItem [Paragraph [Text ''b'']]],
                    Paragraph [Text ''x'']])"
    by code_simp
  show ?thesis
    using c bullet_lists_nonempty [OF c] by simp
qed

section \<open>Label headings\<close>

lemma heading_line_fields:
  "doc_content (heading_line line s) =
     doc_content s @ (case current_list s of None \<Rightarrow> [] | Some l \<Rightarrow> [l])
       @ (case current_paragraph s of None \<Rightarrow> [] | Some p \<Rightarrow> [p]) @ [length (heap s)]"
  "heap (heading_line line s) = heap s @ [\<lparr>kind = T_heading 2, content = [Text line]\<rparr>]"
  "current_list (heading_line line s) = None"
  "current_paragraph (heading_line line s) = None"
  by (simp_all add: heading_line_def flush_list_def flush_paragraph_def alloc_def doc_append_def
        Let_def split: option.splits)

lemma process_line_label:
  assumes "is_label (rstrip raw)"
  shows "process_line s raw = Inr (heading_line (rstrip raw) s)"
  using assms is_label_not_bullet [OF assms] is_label_nonempty [OF assms]
  by (simp add: process_line_def Let_def)

text \<open>
  C7. On a line that starts with one of the five labels, the body of the loop appends
  the open list and the open paragraph, if any, in this order, clears both, and appends
  a new heading of level 2 whose one child is a text leaf with the whole line, label
  included (the line as the loop has it, after \<open>rstrip\<close>). The text
  \<open>Date: 2024-01-01\<close> gives a Document with exactly one child, that heading.
\<close>

theorem label_heading_flushes:
  "(is_label raw \<longrightarrow>
      (\<exists>s'. process_line s raw = Inr s' \<and>
         doc_content s' =
           doc_content s @ (case current_list s of None \<Rightarrow> [] | Some l \<Rightarrow> [l])
             @ (case current_paragraph s of None \<Rightarrow> [] | Some p \<Rightarrow> [p]) @ [length (heap s)] \<and>
         heap s' = heap s @ [\<lparr>kind = T_heading 2, content = [Text (rstrip raw)]\<rparr>] \<and>
         current_list s' = None \<and> current_paragraph s' = None)) \<and>
   convert_to_prosemirror ''Date: 2024-01-01'' =
     Inr (Document [Heading 2 [Text ''Date: 2024-01-01'']])"
proof (intro conjI impI)
  assume "is_label raw"
  then have "is_label (rstrip raw)"
    by (simp add: is_label_rstrip)
  then have "process_line s raw = Inr (heading_line (rstrip raw) s)"
    by (rule process_line_label)
  then show "\<exists>s'. process_line s raw = Inr s' \<and>
         doc_content s' =
           doc_content s @ (case current_list s of None \<Rightarrow> [] | Some l \<Rightarrow> [l])
             @ (case current_paragraph s of None \<Rightarrow> [] | Some p \<Rightarrow> [p]) @ [length (heap s)] \<and>
         heap s' = heap s @ [\<lparr>kind = T_heading 2, content = [Text (rstrip raw)]\<rparr>] \<and>
         current_list s' = None \<and> current_paragraph s' = None"
    by (simp add: heading_line_fields)
next
  show "convert_to_prosemirror ''Date: 2024-01-01'' =
     Inr (Document [Heading 2 [Text ''Date: 2024-01-01'']])"
    by code_simp
qed

theorem label_heading_flushes_witness:
  "is_label ''Date: 2024-01-01  '' \<and>
   (\<exists>s'. process_line
      \<lparr>heap = [\<lparr>kind = T_bulletList, content = [ListItem [Paragraph [Text ''i'']]]\<rparr>,
               \<lparr>kind = T_paragraph, content = [Text ''t'']\<rparr>],
        doc_content = [], current_list = Some 0, current_paragraph = Some 1\<rparr>
      ''Date: 2024-01-01  '' = Inr s' \<and>
      doc_content s' = [0, 1, 2] \<and>
      heap s' = [\<lparr>kind = T_bulletList, content = [ListItem [Paragraph [Text ''i'']]]\<rparr>,
                 \<lparr>kind = T_paragraph, content = [Text ''t'']\<rparr>,
                 \<lparr>kind = T_heading 2, content = [Text ''Date: 2024-01-01'']\<rparr>] \<and>
      current_list s' = None \<and> current_paragraph s' = None)"
proof -
  have l: "is_label ''Date: 2024-01-01  ''" by code_simp
  have r: "rstrip ''Date: 2024-01-01  '' = ''Date: 2024-01-01''" by code_simp
  show ?thesis
    using l r label_heading_flushes [of "''Date: 2024-01-01  ''"
      "\<lparr>heap = [\<lparr>kind = T_bulletList, content = [ListItem [Paragraph [Text ''i'']]]\<rparr>,
               \<lparr>kind = T_paragraph, content = [Text ''t'']\<rparr>],
        doc_content = [], current_list = Some 0, current_paragraph = Some 1\<rparr>"]
    by (simp add: numeral_2_eq_2)
qed

section \<open>Bullet items\<close>

lemma bullet_nonempty: "startswith (strip raw) ''- '' \<Longrightarrow> rstrip raw \<noteq> []"
  by (auto simp: strip_def startswith_def)

lemma bullet_line_fields:
  "doc_content (bullet_line line s) = doc_content s"
  "current_paragraph (bullet_line line s) = current_paragraph s"
  "current_list s = None \<Longrightarrow> current_list (bullet_line line s) = Some (length (heap s))"
  "current_list s = None \<Longrightarrow> heap (bullet_line line s) =
     heap s @ [\<lparr>kind = T_bulletList,
                 content = [ListItem [Paragraph [Text (drop 2 (strip line))]]]\<rparr>]"
  "current_list s = Some l \<Longrightarrow> current_list (bullet_line line s) = Some l"
  "current_list s = Some l \<Longrightarrow> heap (bullet_line line s) =
     (heap s)[l := (heap s ! l)\<lparr>content :=
        content (heap s ! l) @ [ListItem [Paragraph [Text (drop 2 (strip line))]]]\<rparr>]"
  by (simp_all add: bullet_line_def alloc_def content_append_def Let_def split: option.splits)

text \<open>
  C10. On a bullet line, also one with white space in front, the item added to the open
  list (a new list when none is open) holds one paragraph with one text leaf: the line
  with the white space of both ends removed, less its first two characters. The
  indentation is not in the leaf: the text of two blanks and \<open>- a\<close> gives the item \<open>a\<close>.
\<close>

theorem bullet_item_text:
  "(startswith (strip raw) ''- '' \<longrightarrow>
      (\<exists>s'. process_line s raw = Inr s' \<and>
         doc_content s' = doc_content s \<and> current_paragraph s' = current_paragraph s \<and>
         (case current_list s of
            None \<Rightarrow>
              current_list s' = Some (length (heap s)) \<and>
              heap s' = heap s @ [\<lparr>kind = T_bulletList,
                content = [ListItem [Paragraph [Text (drop 2 (strip raw))]]]\<rparr>]
          | Some l \<Rightarrow>
              current_list s' = Some l \<and>
              heap s' = (heap s)[l := (heap s ! l)\<lparr>content :=
                content (heap s ! l) @ [ListItem [Paragraph [Text (drop 2 (strip raw))]]]\<rparr>]))) \<and>
   convert_to_prosemirror ''  - a'' =
     Inr (Document [BulletList [ListItem [Paragraph [Text ''a'']]]])"
proof (intro conjI impI)
  assume b: "startswith (strip raw) ''- ''"
  then have "process_line s raw = Inr (bullet_line (rstrip raw) s)"
    using bullet_nonempty [OF b] by (simp add: process_line_def Let_def strip_rstrip)
  then show "\<exists>s'. process_line s raw = Inr s' \<and>
         doc_content s' = doc_content s \<and> current_paragraph s' = current_paragraph s \<and>
         (case current_list s of
            None \<Rightarrow>
              current_list s' = Some (length (heap s)) \<and>
              heap s' = heap s @ [\<lparr>kind = T_bulletList,
                content = [ListItem [Paragraph [Text (drop 2 (strip raw))]]]\<rparr>]
          | Some l \<Rightarrow>
              current_list s' = Some l \<and>
              heap s' = (heap s)[l := (heap s ! l)\<lparr>content :=
                content (heap s ! l) @ [ListItem [Paragraph [Text (drop 2 (strip raw))]]]\<rparr>])"
    by (simp add: bullet_line_fields strip_rstrip split: option.splits)
next
  show "convert_to_prosemirror ''  - a'' =
     Inr (Document [BulletList [ListItem [Paragraph [Text ''a'']]]])"
    by code_simp
qed

theorem bullet_item_text_witness:
  "startswith (strip ''  - a b  '') ''- '' \<and>
   (\<exists>s'. process_line init_state ''  - a b  '' = Inr s' \<and>
      current_list s' = Some 0 \<and>
      heap s' = [\<lparr>kind = T_bulletList, content = [ListItem [Paragraph [Text ''a b'']]]\<rparr>])"
proof -
  have b: "startswith (strip ''  - a b  '') ''- ''" by code_simp
  have t: "drop 2 (strip ''  - a b  '') = ''a b''" by code_simp
  show ?thesis
    using b t bullet_item_text [of "''  - a b  ''" init_state]
    by (auto simp: init_state_def)
qed

section \<open>Triggering events\<close>

lemmas trigger_example_defs = trigger_folder_created_def call_handlers.simps
  example_callables_def on_folder_created_def new_event_handler_def recording_handler_def
  failing_handler_def unprintable_handler_def exiting_handler_def registering_handler_def
  record_call_def

text \<open>
  C5. The claim: a trigger invokes every handler registered for the kind, a handler
  that raises has its failure logged and the later ones still run, and the trigger
  never raises to its caller. The code: with H3 and then H2 registered, H3 raises an
  \<^verbatim>\<open>Exception\<close> whose \<^verbatim>\<open>__str__\<close> raises; the clause catches it, \<^verbatim>\<open>str(e)\<close> raises in
  the body of the clause, and that exception leaves the trigger: nothing is logged and
  H2 is not called. The same with H4, which raises \<^verbatim>\<open>SystemExit\<close>: the clause does
  not catch it.
\<close>

theorem trigger_lets_exception_escape:
  "trigger_folder_created example_callables ''p''
     \<lparr>world = [], events = on_folder_created 2 (on_folder_created 3 new_event_handler),
      logged = []\<rparr> =
   Some (Some (PyExc True (StrReturns ''no text'')),
     \<lparr>world = [''H3 p''], events = on_folder_created 2 (on_folder_created 3 new_event_handler),
      logged = []\<rparr>) \<and>
   trigger_folder_created example_callables ''p''
     \<lparr>world = [], events = on_folder_created 2 (on_folder_created 4 new_event_handler),
      logged = []\<rparr> =
   Some (Some (PyExc False (StrReturns ''exit'')),
     \<lparr>world = [''H4 p''], events = on_folder_created 2 (on_folder_created 4 new_event_handler),
      logged = []\<rparr>)"
  by (simp add: trigger_example_defs)

text \<open>
  What the loop does contain: H1 raises an \<^verbatim>\<open>Exception\<close> with a text; it is logged
  and H2 is called, each once, in registration order, with the payload as given.
\<close>

lemma trigger_logs_and_continues:
  "trigger_folder_created example_callables ''p''
     \<lparr>world = [], events = on_folder_created 2 (on_folder_created 1 new_event_handler),
      logged = []\<rparr> =
   Some (None,
     \<lparr>world = [''H1 p'', ''H2 p''],
      events = on_folder_created 2 (on_folder_created 1 new_event_handler),
      logged = [''Error in folder created handler: boom'']\<rparr>)"
  by (simp add: trigger_example_defs)

text \<open>A handler registered while the trigger runs is called by that trigger.\<close>

lemma trigger_calls_handler_registered_meanwhile:
  "trigger_folder_created example_callables ''p''
     \<lparr>world = [], events = on_folder_created 5 new_event_handler, logged = []\<rparr> =
   Some (None,
     \<lparr>world = [''H5 p'', ''H2 p''],
      events = on_folder_created 2 (on_folder_created 5 new_event_handler),
      logged = []\<rparr>)"
  by (simp add: trigger_example_defs)

text \<open>
  With callables that leave the event handler object alone and raise nothing but
  instances of \<^verbatim>\<open>Exception\<close> whose \<^verbatim>\<open>str\<close> returns, the loop ends and nothing leaves
  it; so with no handler registered, too.
\<close>

lemma call_handlers_quiet:
  assumes q: "quiet fs p"
  shows "\<exists>s'. call_handlers fs handlers label p i s = Some (None, s') \<and> events s' = events s"
proof (induction "length (handlers (events s)) - i" arbitrary: i s)
  case 0
  then have "\<not> i < length (handlers (events s))" by simp
  then show ?case by (subst call_handlers.simps) simp
next
  case (Suc n)
  then have lt: "i < length (handlers (events s))" by simp
  obtain r s1 where call: "fs (handlers (events s) ! i) p s = (r, s1)"
    by (cases "fs (handlers (events s) ! i) p s")
  from q have "events (snd (fs (handlers (events s) ! i) p s)) = events s \<and>
      (fst (fs (handlers (events s) ! i) p s) = Returns \<or>
       (\<exists>m. fst (fs (handlers (events s) ! i) p s) = Raises (PyExc True (StrReturns m))))"
    unfolding quiet_def by blast
  with call have ev: "events s1 = events s"
    and r: "r = Returns \<or> (\<exists>m. r = Raises (PyExc True (StrReturns m)))"
    by simp_all
  from r show ?case
  proof
    assume ret: "r = Returns"
    from Suc.hyps(2) ev have "n = length (handlers (events s1)) - Suc i" by simp
    from Suc.hyps(1) [OF this] obtain s' where
      "call_handlers fs handlers label p (Suc i) s1 = Some (None, s')" "events s' = events s1"
      by blast
    with lt call ret ev show ?thesis by (subst call_handlers.simps) simp
  next
    assume "\<exists>m. r = Raises (PyExc True (StrReturns m))"
    then obtain m where exc: "r = Raises (PyExc True (StrReturns m))" ..
    let ?s2 = "s1\<lparr>logged := logged s1 @ [label @ m]\<rparr>"
    from Suc.hyps(2) ev have "n = length (handlers (events ?s2)) - Suc i" by simp
    from Suc.hyps(1) [OF this] obtain s' where
      "call_handlers fs handlers label p (Suc i) ?s2 = Some (None, s')" "events s' = events ?s2"
      by blast
    with lt call exc ev show ?thesis by (subst call_handlers.simps) simp
  qed
qed

lemma call_handlers_none_registered:
  "handlers (events s) = [] \<Longrightarrow> call_handlers fs handlers label p 0 s = Some (None, s)"
  by (subst call_handlers.simps) simp

section \<open>The metadata stamp\<close>

text \<open>
  C9, as claimed: after the call \<^verbatim>\<open>data["metadata"]["updated_by"]\<close> always is the fixed
  string. It is not: with \<^verbatim>\<open>data = {"metadata": None}\<close> the key is there, no dict is made,
  and \<^verbatim>\<open>None.update\<close> raises.
\<close>

theorem add_metadata_none_counterexample:
  "add_metadata ''2024-01-01 10:00:00'' 0 [[''metadata'' \<mapsto> PNone]] = Inl AttributeError"
  by (simp add: add_metadata_def)

text \<open>The same on a string and on a truth value; the store is as before then.\<close>

lemma add_metadata_not_a_dict:
  "(st ! d) ''metadata'' = Some (PStr x) \<or> (st ! d) ''metadata'' = Some (PBool y) \<or>
   (st ! d) ''metadata'' = Some PNone \<Longrightarrow> add_metadata now d st = Inl AttributeError"
  by (auto simp: add_metadata_def)

text \<open>
  A dict that is the value of \<^verbatim>\<open>metadata\<close> and of another key is one object: after the
  call the stamp is seen under the other key as well.
\<close>

lemma add_metadata_shared_dict:
  "add_metadata ''2024-01-01 10:00:00'' 0 example_store =
     Inr [[''title'' \<mapsto> PStr ''T'', ''metadata'' \<mapsto> PRef 1, ''copy'' \<mapsto> PRef 1],
          [''owner'' \<mapsto> PStr ''me'', ''last_updated'' \<mapsto> PStr ''2024-01-01 10:00:00'',
           ''updated_by'' \<mapsto> PStr ''Slite Integration Agent'']]"
  by (simp add: add_metadata_def example_store_def stamp_def)

text \<open>
  C9, amended. Let \<^verbatim>\<open>data\<close> have no \<^verbatim>\<open>metadata\<close> entry, or one that is a dict other
  than \<^verbatim>\<open>data\<close> itself. Then the method returns; \<^verbatim>\<open>data["metadata"]\<close> is a dict
  afterwards, a new one when there was none; every other key of \<^verbatim>\<open>data\<close> has the value
  it had (for a dict, the same object); in the metadata dict \<^verbatim>\<open>updated_by\<close> is the fixed
  string and \<^verbatim>\<open>last_updated\<close> the reading of the clock, and every other key of it is as
  before (absent in a new dict); and no dict other than \<^verbatim>\<open>data\<close> and the metadata dict
  is changed.
\<close>

theorem add_metadata_frame:
  "d < length st \<and>
   ((st ! d) ''metadata'' = None \<or>
    (\<exists>a. (st ! d) ''metadata'' = Some (PRef a) \<and> a < length st \<and> a \<noteq> d)) \<longrightarrow>
   (\<exists>st' a'. add_metadata now d st = Inr st' \<and>
      (st' ! d) ''metadata'' = Some (PRef a') \<and> a' < length st' \<and> a' \<noteq> d \<and>
      (\<forall>k. k \<noteq> ''metadata'' \<longrightarrow> (st' ! d) k = (st ! d) k) \<and>
      (st' ! a') ''updated_by'' = Some (PStr ''Slite Integration Agent'') \<and>
      (st' ! a') ''last_updated'' = Some (PStr now) \<and>
      (\<forall>k. k \<noteq> ''last_updated'' \<longrightarrow> k \<noteq> ''updated_by'' \<longrightarrow>
         (st' ! a') k = (if (st ! d) ''metadata'' = None then None else (st ! a') k)) \<and>
      (\<forall>b. b < length st \<longrightarrow> b \<noteq> d \<longrightarrow> b \<noteq> a' \<longrightarrow> st' ! b = st ! b))"
proof (intro impI)
  assume h: "d < length st \<and>
   ((st ! d) ''metadata'' = None \<or>
    (\<exists>a. (st ! d) ''metadata'' = Some (PRef a) \<and> a < length st \<and> a \<noteq> d))"
  then have d: "d < length st" by simp
  from h consider (absent) "(st ! d) ''metadata'' = None"
    | (dict) a where "(st ! d) ''metadata'' = Some (PRef a)" "a < length st" "a \<noteq> d"
    by auto
  then show "\<exists>st' a'. add_metadata now d st = Inr st' \<and>
      (st' ! d) ''metadata'' = Some (PRef a') \<and> a' < length st' \<and> a' \<noteq> d \<and>
      (\<forall>k. k \<noteq> ''metadata'' \<longrightarrow> (st' ! d) k = (st ! d) k) \<and>
      (st' ! a') ''updated_by'' = Some (PStr ''Slite Integration Agent'') \<and>
      (st' ! a') ''last_updated'' = Some (PStr now) \<and>
      (\<forall>k. k \<noteq> ''last_updated'' \<longrightarrow> k \<noteq> ''updated_by'' \<longrightarrow>
         (st' ! a') k = (if (st ! d) ''metadata'' = None then None else (st ! a') k)) \<and>
      (\<forall>b. b < length st \<longrightarrow> b \<noteq> d \<longrightarrow> b \<noteq> a' \<longrightarrow> st' ! b = st ! b)"
  proof cases
    case absent
    with d show ?thesis
      by (simp add: add_metadata_def stamp_def map_add_def nth_list_update nth_append)
  next
    case dict
    with d show ?thesis
      by (simp add: add_metadata_def stamp_def map_add_def nth_list_update)
  qed
qed

theorem add_metadata_frame_witness:
  "0 < length example_store \<and>
   ((example_store ! 0) ''metadata'' = None \<or>
    (\<exists>a. (example_store ! 0) ''metadata'' = Some (PRef a) \<and> a < length example_store \<and> a \<noteq> 0)) \<and>
   (\<exists>st' a'. add_metadata ''2024-01-01 10:00:00'' 0 example_store = Inr st' \<and>
      (st' ! 0) ''metadata'' = Some (PRef a') \<and>
      (st' ! 0) ''title'' = Some (PStr ''T'') \<and>
      (st' ! a') ''owner'' = Some (PStr ''me'') \<and>
      (st' ! a') ''updated_by'' = Some (PStr ''Slite Integration Agent'') \<and>
      (st' ! a') ''last_updated'' = Some (PStr ''2024-01-01 10:00:00''))"
  using add_metadata_frame [of 0 example_store "''2024-01-01 10:00:00''"]
  by (simp add: example_store_def add_metadata_def stamp_def)

end
